theory Spec2Isabelle
  imports Complex_Main
begin

section \<open>Data model (App.tsx)\<close>

text \<open>
  A JavaScript \<^verbatim>\<open>number\<close> is modelled as a \<^typ>\<open>real\<close> (exact arithmetic, no rounding,
  no NaN), the time value of a \<^verbatim>\<open>Date\<close> as an \<^typ>\<open>int\<close> (milliseconds since the epoch),
  and a string as a \<^typ>\<open>string\<close> whose characters are code units below 256.
\<close>

datatype vehicle_status = Active | Completed

text \<open>
  \<^verbatim>\<open>Omit<Vehicle, 'id' | 'checkInTime' | 'status'>\<close>: what \<^verbatim>\<open>handleCheckin\<close> is given.
  The three optional fields are part of that type.
\<close>

record vehicle_data =
  vehicleNumber :: string
  vehicleType :: string
  ownerName :: string
  phoneNumber :: string
  checkOutTime :: "int option"
  duration :: "real option"
  charge :: "real option"

text \<open>\<^verbatim>\<open>interface Vehicle\<close>; the field \<^verbatim>\<open>id\<close> is named \<open>id_v\<close> here.\<close>

record vehicle = vehicle_data +
  id_v :: string
  checkInTime :: int
  status :: vehicle_status

section \<open>Charge calculation\<close>

text \<open>\<^verbatim>\<open>calculateCharge\<close> of App.tsx.\<close>

definition calculateCharge :: "real \<Rightarrow> real" where
  "calculateCharge hours =
     (if hours \<le> 12 then 10
      else (let days = of_int \<lceil>hours / 24\<rceil> in days * 20))"

text \<open>The local \<^verbatim>\<open>calculateCharge\<close> of the component \<^verbatim>\<open>ActiveVehiclesDetails\<close>.\<close>

definition calculateCharge_ActiveVehiclesDetails :: "real \<Rightarrow> real" where
  "calculateCharge_ActiveVehiclesDetails hours =
     (if hours \<le> 12 then 10
      else (let days = of_int \<lceil>hours / 24\<rceil> in days * 20))"

text \<open>
  \<^verbatim>\<open>getCurrentCharge\<close> of \<^verbatim>\<open>ActiveVehiclesDetails\<close>: the component's clock state
  \<^verbatim>\<open>currentTime\<close> and the parsed check-in time are the two arguments.
\<close>

definition getCurrentCharge_ActiveVehiclesDetails :: "int \<Rightarrow> int \<Rightarrow> real" where
  "getCurrentCharge_ActiveVehiclesDetails currentTime checkIn =
     (let duration' = real_of_int (currentTime - checkIn) / (1000 * 60 * 60)
      in calculateCharge_ActiveVehiclesDetails duration')"

text \<open>
  \<^verbatim>\<open>getCurrentCharge\<close> of the component \<^verbatim>\<open>ActiveVehicles\<close>, which receives its charge
  function as the property \<^verbatim>\<open>calculateCharge\<close>; \<open>now\<close> is the clock reading.
\<close>

definition getCurrentCharge_ActiveVehicles :: "(real \<Rightarrow> real) \<Rightarrow> int \<Rightarrow> int \<Rightarrow> real" where
  "getCurrentCharge_ActiveVehicles calculateCharge_prop now checkIn =
     (let diff = now - checkIn;
          hours = real_of_int diff / (1000 * 60 * 60)
      in calculateCharge_prop hours)"

text \<open>App.tsx renders \<^verbatim>\<open><ActiveVehicles calculateCharge={calculateCharge} />\<close>.\<close>

definition App_ActiveVehicles_calculateCharge :: "real \<Rightarrow> real" where
  "App_ActiveVehicles_calculateCharge = calculateCharge"

section \<open>Decimal rendering of a clock reading\<close>

text \<open>\<^verbatim>\<open>Date.now().toString()\<close>: the decimal digits of an integer, with a minus sign.\<close>

fun toString_nat :: "nat \<Rightarrow> string" where
  "toString_nat n =
     (if n < 10 then [char_of (48 + n)]
      else toString_nat (n div 10) @ [char_of (48 + n mod 10)])"

declare toString_nat.simps [simp del]

definition toString :: "int \<Rightarrow> string" where
  "toString i = (if i < 0 then CHR ''-'' # toString_nat (nat (- i)) else toString_nat (nat i))"

text \<open>Reading a digit string back; used to show that the rendering is injective.\<close>

definition parse_nat :: "string \<Rightarrow> nat" where
  "parse_nat s = foldl (\<lambda>a c. 10 * a + (of_char c - 48)) 0 s"

section \<open>The handlers of App.tsx\<close>

text \<open>
  What a handler shows to the operator. \<open>Alert n\<close> is the \<^verbatim>\<open>alert\<close> box
  "Vehicle Already Checked In! ... n is already parked and has not checked out yet. ...
  Please check out the vehicle first before checking in again.", and \<open>ToastError n\<close> the
  \<^verbatim>\<open>toast.error\<close> titled "Vehicle Already Parked" with the description
  "n is already parked. Please check out first.".
\<close>

datatype notice = Alert string | ToastError string

text \<open>
  The value a handler gives back to its caller. \<^verbatim>\<open>handleCheckin\<close> returns a boolean;
  \<^verbatim>\<open>handleCheckout\<close> has no \<^verbatim>\<open>return\<close> statement, so its call evaluates to
  \<^verbatim>\<open>undefined\<close>. No handler returns a record; \<open>Record\<close> is there so that returning
  one can be told apart from returning nothing.
\<close>

datatype returned_value = Undefined | Boolean bool | Record vehicle

text \<open>The result of running a handler: its return value, its notices, and the collection
  passed to \<^verbatim>\<open>setVehicles\<close> (the unchanged collection when \<^verbatim>\<open>setVehicles\<close> is not called).\<close>

record outcome =
  returned :: returned_value
  notices :: "notice list"
  vehicles :: "vehicle list"

text \<open>
  \<^verbatim>\<open>handleCheckin\<close>. The clock is read twice: \<open>idNow\<close> is \<^verbatim>\<open>Date.now()\<close> and \<open>now\<close> is
  \<^verbatim>\<open>new Date()\<close>. The spread \<^verbatim>\<open>{...vehicle, id, checkInTime, status}\<close> extends the given
  data by the three new fields.
\<close>

definition handleCheckin :: "vehicle_data \<Rightarrow> int \<Rightarrow> int \<Rightarrow> vehicle list \<Rightarrow> outcome" where
  "handleCheckin vehicle idNow now vs =
     (case find (\<lambda>v. vehicleNumber v = vehicleNumber vehicle \<and> status v = Active) vs of
        Some existingActiveVehicle \<Rightarrow>
          \<lparr>returned = Boolean False,
           notices = [Alert (vehicleNumber vehicle), ToastError (vehicleNumber vehicle)],
           vehicles = vs\<rparr>
      | None \<Rightarrow>
          (let newVehicle = vehicle_data.extend vehicle (vehicle.fields (toString idNow) now Active)
           in \<lparr>returned = Boolean True, notices = [], vehicles = vs @ [newVehicle]\<rparr>))"

text \<open>
  \<^verbatim>\<open>handleCheckout\<close>: a map over the collection. \<open>now\<close> is the reading of \<^verbatim>\<open>new Date()\<close>
  in the callback (one reading; the callback reads the clock once for each record it updates).
\<close>

definition checkout_vehicle :: "string \<Rightarrow> int \<Rightarrow> vehicle \<Rightarrow> vehicle" where
  "checkout_vehicle vehicleId now vehicle =
     (if id_v vehicle = vehicleId \<and> status vehicle = Active then
        (let checkOutTime' = now;
             duration' = real_of_int (checkOutTime' - checkInTime vehicle) / (1000 * 60 * 60);
             charge' = calculateCharge duration'
         in vehicle\<lparr>checkOutTime := Some checkOutTime', duration := Some duration',
                    charge := Some charge', status := Completed\<rparr>)
      else vehicle)"

definition handleCheckout :: "string \<Rightarrow> int \<Rightarrow> vehicle list \<Rightarrow> outcome" where
  "handleCheckout vehicleId now vs =
     \<lparr>returned = Undefined, notices = [], vehicles = map (checkout_vehicle vehicleId now) vs\<rparr>"

section \<open>Sequences of operations\<close>

text \<open>
  The form state \<^verbatim>\<open>formData\<close> of \<^verbatim>\<open>VehicleCheckin\<close>, which is what \<^verbatim>\<open>handleSubmit\<close>
  passes to \<^verbatim>\<open>onCheckin\<close>: four strings and nothing else.
\<close>

definition formData :: "string \<Rightarrow> string \<Rightarrow> string \<Rightarrow> string \<Rightarrow> vehicle_data" where
  "formData n t w p =
     \<lparr>vehicleNumber = n, vehicleType = t, ownerName = w, phoneNumber = p,
      checkOutTime = None, duration = None, charge = None\<rparr>"

text \<open>
  \<open>CheckIn n t w p idNow now\<close> is a check-in of the form data at the two clock readings,
  \<open>CheckOut i now\<close> a check-out of the id \<open>i\<close>. Each operation runs on the collection the
  previous one left.
\<close>

datatype operation =
  CheckIn string string string string int int
  | CheckOut string int

fun step :: "vehicle list \<Rightarrow> operation \<Rightarrow> vehicle list" where
  "step vs (CheckIn n t w p idNow now) = vehicles (handleCheckin (formData n t w p) idNow now vs)"
| "step vs (CheckOut i now) = vehicles (handleCheckout i now vs)"

definition run_from :: "vehicle list \<Rightarrow> operation list \<Rightarrow> vehicle list" where
  "run_from vs ops = foldl step vs ops"

text \<open>\<^verbatim>\<open>useState<Vehicle[]>([])\<close>: the collection starts empty.\<close>

definition run :: "operation list \<Rightarrow> vehicle list" where
  "run ops = run_from [] ops"

text \<open>The readings of \<^verbatim>\<open>Date.now()\<close> taken by the check-ins of a sequence.\<close>

fun id_readings :: "operation list \<Rightarrow> int list" where
  "id_readings [] = []"
| "id_readings (CheckIn n t w p idNow now # ops) = idNow # id_readings ops"
| "id_readings (CheckOut i now # ops) = id_readings ops"

text \<open>No two active records carry the same vehicle number.\<close>

definition unique_active :: "vehicle list \<Rightarrow> bool" where
  "unique_active vs = distinct (map vehicleNumber (filter (\<lambda>v. status v = Active) vs))"

section \<open>Plate number validation (VehicleCheckin.tsx)\<close>

text \<open>
  The character classes of the pattern. \<^verbatim>\<open>\s\<close> on code units below 256: tab, line feed,
  vertical tab, form feed, carriage return, space and the no-break space.
\<close>

definition isUpper :: "char \<Rightarrow> bool" where
  "isUpper c = (65 \<le> (of_char c :: nat) \<and> (of_char c :: nat) \<le> 90)"

definition isDigit :: "char \<Rightarrow> bool" where
  "isDigit c = (48 \<le> (of_char c :: nat) \<and> (of_char c :: nat) \<le> 57)"

definition isSpace :: "char \<Rightarrow> bool" where
  "isSpace c = ((of_char c :: nat) \<in> {9, 10, 11, 12, 13, 32, 160})"

text \<open>
  An anchored pattern that is a sequence of bounded repetitions of character classes:
  \<open>(cls, lo, hi)\<close> is \<^verbatim>\<open>cls{lo,hi}\<close>. The string matches when it splits into one run for
  each item, of a length the item allows.
\<close>

type_synonym quantified_class = "(char \<Rightarrow> bool) \<times> nat \<times> nat"

fun full_match :: "quantified_class list \<Rightarrow> string \<Rightarrow> bool" where
  "full_match [] s = (s = [])"
| "full_match ((cls, lo, hi) # rest) s =
     list_ex (\<lambda>n. n \<le> length s \<and> list_all cls (take n s) \<and> full_match rest (drop n s))
       [lo..<Suc hi]"

text \<open>\<^verbatim>\<open>/^[A-Z]{2}\d{1,2}[A-Z]{1,2}\d{3,4}$/\<close>\<close>

definition pattern :: "quantified_class list" where
  "pattern = [(isUpper, 2, 2), (isDigit, 1, 2), (isUpper, 1, 2), (isDigit, 3, 4)]"

definition validateVehicleNumber :: "string \<Rightarrow> bool" where
  "validateVehicleNumber number =
     (let cleanNumber = filter (\<lambda>c. \<not> isSpace c) number
      in full_match pattern cleanNumber)"

text \<open>
  \<^verbatim>\<open>toUpperCase\<close> on ASCII strings: the letters a to z are mapped to A to Z. (On other
  code units JavaScript follows the Unicode case tables, which are not modelled; the
  statements that use \<open>toUpperCase\<close> are about ASCII strings.)
\<close>

definition isAscii :: "string \<Rightarrow> bool" where
  "isAscii s = list_all (\<lambda>c. (of_char c :: nat) < 128) s"

definition toUpperCase :: "string \<Rightarrow> string" where
  "toUpperCase s =
     map (\<lambda>c. if 97 \<le> (of_char c :: nat) \<and> (of_char c :: nat) \<le> 122
              then char_of ((of_char c :: nat) - 32) else c) s"

text \<open>
  \<^verbatim>\<open>handleVehicleNumberChange\<close>: the new value of \<^verbatim>\<open>formData.vehicleNumber\<close> and of
  \<^verbatim>\<open>errors.vehicleNumber\<close>.
\<close>

definition handleVehicleNumberChange :: "string \<Rightarrow> string \<times> string" where
  "handleVehicleNumberChange value' =
     (let upperValue = toUpperCase value'
      in if upperValue \<noteq> [] \<and> \<not> validateVehicleNumber upperValue
         then (upperValue, ''Invalid vehicle number format (e.g., MH 12 AB 1234)'')
         else (upperValue, []))"

text \<open>
  The validator as the specification words it, for comparison with the code: strip all
  whitespace, fold to upper case, then match the pattern in full.
\<close>

definition IsValidPlateNumber_spec :: "string \<Rightarrow> bool" where
  "IsValidPlateNumber_spec s = full_match pattern (toUpperCase (filter (\<lambda>c. \<not> isSpace c) s))"

section \<open>The charge calculator\<close>

lemma calculateCharge_ge_10: "10 \<le> calculateCharge h"
proof (cases "h \<le> 12")
  case True
  then show ?thesis by (simp add: calculateCharge_def)
next
  case False
  then have "0 < h / 24" by simp
  then have "1 \<le> \<lceil>h / 24\<rceil>" by linarith
  then have "(1::real) \<le> of_int \<lceil>h / 24\<rceil>" by linarith
  then have "(10::real) \<le> of_int \<lceil>h / 24\<rceil> * 20" by linarith
  with False show ?thesis by (simp add: calculateCharge_def Let_def)
qed

text \<open>
  C1. The charge for a non-negative duration is 10 up to and including 12 hours, and
  beyond that 20 for every started block of 24 hours; the six boundary values of the
  specification are as listed.
\<close>

theorem calculateCharge_tiers:
  "0 \<le> h \<Longrightarrow>
     calculateCharge h = (if h \<le> 12 then 10 else of_int \<lceil>h / 24\<rceil> * 20) \<and>
     calculateCharge 12.0 = 10 \<and> calculateCharge 12.0001 = 20 \<and>
     calculateCharge 24.0 = 20 \<and> calculateCharge 24.0001 = 40 \<and>
     calculateCharge 48.0 = 40 \<and> calculateCharge 0 = 10"
  by (simp add: calculateCharge_def Let_def)

theorem calculateCharge_tiers_witness:
  "(0::real) \<le> 30 \<and> calculateCharge 30 = 40 \<and> calculateCharge 12.0001 = 20"
  using calculateCharge_tiers [of 30] by simp

text \<open>
  C6. The charge never decreases when the duration grows: for \<open>0 \<le> h1 \<le> h2\<close> the charge
  for \<open>h1\<close> is at most the charge for \<open>h2\<close>.
\<close>

theorem calculateCharge_mono:
  "0 \<le> h1 \<Longrightarrow> h1 \<le> h2 \<Longrightarrow> calculateCharge h1 \<le> calculateCharge h2"
proof (cases "h1 \<le> 12")
  case True
  then have "calculateCharge h1 = 10" by (simp add: calculateCharge_def)
  then show ?thesis using calculateCharge_ge_10 [of h2] by simp
next
  case False
  assume le: "h1 \<le> h2"
  with False have h2: "\<not> h2 \<le> 12" by simp
  from le have "h1 / 24 \<le> h2 / 24" by simp
  then have "\<lceil>h1 / 24\<rceil> \<le> \<lceil>h2 / 24\<rceil>" by (rule ceiling_mono)
  then have "(of_int \<lceil>h1 / 24\<rceil> :: real) \<le> of_int \<lceil>h2 / 24\<rceil>" by simp
  with False h2 show ?thesis by (simp add: calculateCharge_def Let_def)
qed

theorem calculateCharge_mono_witness:
  "(0::real) \<le> 12 \<and> (12::real) \<le> 12.0001 \<and> calculateCharge 12 \<le> calculateCharge 12.0001 \<and>
   calculateCharge 12 = 10 \<and> calculateCharge 12.0001 = 20"
proof -
  have "calculateCharge 12 \<le> calculateCharge 12.0001"
    using calculateCharge_mono [of 12 "12.0001"] by simp
  then show ?thesis by (simp add: calculateCharge_def Let_def)
qed

text \<open>
  C9. The charge function used at checkout, the local one of \<open>ActiveVehiclesDetails\<close> and
  the one the \<open>ActiveVehicles\<close> display applies return the same amount for every duration;
  so both live displays show, at a clock reading, the charge a checkout at that reading
  stores.
\<close>

theorem charge_functions_equal:
  "calculateCharge_ActiveVehiclesDetails h = calculateCharge h \<and>
   App_ActiveVehicles_calculateCharge h = calculateCharge h \<and>
   getCurrentCharge_ActiveVehiclesDetails now (checkInTime v)
     = calculateCharge (real_of_int (now - checkInTime v) / 3600000) \<and>
   getCurrentCharge_ActiveVehicles App_ActiveVehicles_calculateCharge now (checkInTime v)
     = calculateCharge (real_of_int (now - checkInTime v) / 3600000) \<and>
   (id_v v = i \<and> status v = Active \<longrightarrow>
      charge (checkout_vehicle i now v)
        = Some (getCurrentCharge_ActiveVehicles App_ActiveVehicles_calculateCharge now (checkInTime v)) \<and>
      charge (checkout_vehicle i now v)
        = Some (getCurrentCharge_ActiveVehiclesDetails now (checkInTime v)))"
  by (simp add: calculateCharge_ActiveVehiclesDetails_def calculateCharge_def
      App_ActiveVehicles_calculateCharge_def getCurrentCharge_ActiveVehiclesDetails_def
      getCurrentCharge_ActiveVehicles_def checkout_vehicle_def Let_def)

end
